theory Spec2Isabelle
  imports Main "HOL-Library.Word"
begin

section \<open>Time, errors and metrics\<close>

text \<open>
  A Go \<open>time.Time\<close> is modelled as the number of nanoseconds since the Unix epoch, a
  \<open>time.Duration\<close> as the signed 64-bit number of nanoseconds it is in Go, and every
  \<open>uint32\<close> of the source as a 32-bit word. A call of \<open>time.Now()\<close> is an input of
  the function that makes it: the argument \<open>now\<close>.
\<close>

type_synonym time = int
type_synonym duration = "64 word"
type_synonym u32 = "32 word"
type_synonym bytes = "8 word list"

definition time_Add :: "time \<Rightarrow> duration \<Rightarrow> time" where
  "time_Add t d = t + sint d"

definition time_Unix :: "time \<Rightarrow> int" where
  "time_Unix t = t div 1000000000"


definition uint32_of :: "int \<Rightarrow> u32" where
  "uint32_of i = word_of_int i"

datatype err =
    ErrUnsupported
  | Cancelled
  | ErrMsg string
  | ErrWrap string err

text \<open>
  \<open>warnings.Metric\<close> is a counter vector indexed by tenant and reason; only the reason
  \<open>ReasonOutsideIngestionSlack\<close> is used by the append block.
\<close>

datatype warn_reason = ReasonOutsideIngestionSlack

type_synonym counter_vec = "string \<times> warn_reason \<Rightarrow> nat"

definition counter_Inc :: "counter_vec \<Rightarrow> string \<Rightarrow> warn_reason \<Rightarrow> counter_vec" where
  "counter_Inc m tenant r = m((tenant, r) := Suc (m (tenant, r)))"

section \<open>The append block\<close>

text \<open>
  \<open>backend.BlockMeta\<close>, with the fields the append block reads and writes. The types
  of the block id and of the encoding are parameters: \<open>uuid.UUID\<close> and
  \<open>backend.Encoding\<close> are declared outside the files at hand.
\<close>

record ('u, 'e) BlockMeta =
  Version :: string
  BlockID :: 'u
  TenantID :: string
  StartTime :: time
  EndTime :: time
  TotalObjects :: nat
  Encoding :: 'e
  DataEncoding :: string

text \<open>A \<open>Record\<close> of the in-memory index: trace id, file offset and length.\<close>

record Record =
  rec_ID :: bytes
  rec_Start :: nat
  rec_Length :: nat

type_synonym Trace = "bytes list"

text \<open>
  \<open>model.ObjectDecoder\<close>: \<open>FastRange\<close> returns the Go triple
  \<open>(start, end, err)\<close>.
\<close>

record ObjectDecoder =
  FastRange :: "bytes \<Rightarrow> u32 \<times> u32 \<times> err option"
  PrepareForRead :: "bytes \<Rightarrow> err + Trace option"

text \<open>A \<open>context.Context\<close>, as far as cancellation goes.\<close>

record Context =
  ctx_cancelled :: bool

definition context_Background :: Context where
  "context_Background = \<lparr>ctx_cancelled = False\<rparr>"

text \<open>
  One page of a WAL file: a whole record (trace id, object bytes, length of the page on
  disk), a record cut short by the end of the file, or a page that cannot be decoded.
\<close>

datatype wal_page =
    is_Page: Page (page_id: bytes) (page_obj: bytes) (page_len: nat)
  | TruncatedPage
  | CorruptPage

text \<open>The two ways the append block opens its file.\<close>

datatype open_flag = O_RDONLY | O_APPEND_CREATE_TRUNC

text \<open>
  What the append block calls but does not define: the UUID and encoding printers and
  parsers, the version constant of the package, the operating system's files, the data
  reader and writer, the object decoders and the paged finder. They are the fields of an
  environment; a theorem that needs a property of one of them assumes it.
\<close>

record ('u, 'e) env =
  uuid_String :: "'u \<Rightarrow> string"
  uuid_Parse :: "string \<Rightarrow> err + 'u"
  Encoding_String :: "'e \<Rightarrow> string"
  ParseEncoding :: "string \<Rightarrow> err + 'e"
  VersionString :: string
  os_OpenFile :: "string \<Rightarrow> open_flag \<Rightarrow> err option"
  os_Close :: "string \<Rightarrow> err option"
  wal_pages :: "string \<Rightarrow> wal_page list"
  NewDataWriter :: "'e \<Rightarrow> err option"
  NewDataReader :: "string option \<Rightarrow> 'e \<Rightarrow> err option"
  NewObjectDecoder :: "string \<Rightarrow> err + ObjectDecoder"
  NewDedupingIterator :: "string \<Rightarrow> err option"
  finder_Find ::
    "Context \<Rightarrow> string option \<Rightarrow> Record list \<Rightarrow> string \<Rightarrow> bytes \<Rightarrow> err + bytes option"

text \<open>
  \<open>v2AppendBlock\<close>. A file handle is the name the file was opened under; the appender
  is the list of its records; \<open>once\<close> tells whether the \<open>sync.Once\<close> has fired.
\<close>

record ('u, 'e) v2AppendBlock =
  meta :: "('u, 'e) BlockMeta"
  ingestionSlack :: duration
  appendFile :: "string option"
  appender :: "Record list"
  filepath :: string
  readFile :: "string option"
  once :: bool

subsection \<open>Strings and paths of the Go library\<close>

text \<open>
  \<open>strings.Split(s, sep)\<close> for a separator of one byte: the fields between the
  separators, one more than there are separators.
\<close>

fun split_acc :: "char \<Rightarrow> string \<Rightarrow> string \<Rightarrow> string list" where
  "split_acc c acc [] = [rev acc]"
| "split_acc c acc (x # xs) =
     (if x = c then rev acc # split_acc c [] xs else split_acc c (x # acc) xs)"

definition strings_Split :: "string \<Rightarrow> char \<Rightarrow> string list" where
  "strings_Split s c = split_acc c [] s"

fun strings_Join :: "string list \<Rightarrow> string \<Rightarrow> string" where
  "strings_Join [] sep = []"
| "strings_Join [x] sep = x"
| "strings_Join (x # y # ys) sep = x @ sep @ strings_Join (y # ys) sep"

text \<open>
  \<open>len([]rune(s))\<close>: the number of UTF-8 sequences of \<open>s\<close>, a byte that starts no
  valid sequence counting as one rune. \<open>utf8_first\<close> is the table of the first bytes:
  the length of the sequence and the range the second byte must lie in.
\<close>

definition utf8_first :: "nat \<Rightarrow> (nat \<times> nat \<times> nat) option" where
  "utf8_first b =
     (if 0xC2 \<le> b \<and> b \<le> 0xDF then Some (2, 0x80, 0xBF)
      else if b = 0xE0 then Some (3, 0xA0, 0xBF)
      else if 0xE1 \<le> b \<and> b \<le> 0xEC then Some (3, 0x80, 0xBF)
      else if b = 0xED then Some (3, 0x80, 0x9F)
      else if 0xEE \<le> b \<and> b \<le> 0xEF then Some (3, 0x80, 0xBF)
      else if b = 0xF0 then Some (4, 0x90, 0xBF)
      else if 0xF1 \<le> b \<and> b \<le> 0xF3 then Some (4, 0x80, 0xBF)
      else if b = 0xF4 then Some (4, 0x80, 0x8F)
      else None)"

definition utf8_cont :: "char \<Rightarrow> bool" where
  "utf8_cont c \<longleftrightarrow> (0x80::nat) \<le> of_char c \<and> (of_char c :: nat) \<le> 0xBF"

definition rune_width :: "char \<Rightarrow> string \<Rightarrow> nat" where
  "rune_width c cs =
     (case utf8_first (of_char c) of
        None \<Rightarrow> 1
      | Some (sz, lo, hi) \<Rightarrow>
          if length cs + 1 < sz then 1
          else if (of_char (cs ! 0) :: nat) < lo \<or> hi < (of_char (cs ! 0) :: nat) then 1
          else if sz \<le> 2 then 2
          else if \<not> utf8_cont (cs ! 1) then 1
          else if sz \<le> 3 then 3
          else if \<not> utf8_cont (cs ! 2) then 1
          else 4)"

fun rune_count :: "string \<Rightarrow> nat" where
  "rune_count [] = 0"
| "rune_count (c # cs) = Suc (rune_count (drop (rune_width c cs - 1) cs))"

text \<open>
  \<open>filepath.Clean\<close> on a Unix path, element by element: empty elements and \<open>.\<close> are
  dropped, \<open>..\<close> removes the element before it, is dropped at the root and is kept at
  the start of a relative path; the empty result is \<open>.\<close>. The stack of elements is
  kept in reverse.
\<close>

definition clean_elem :: "bool \<Rightarrow> string list \<Rightarrow> string \<Rightarrow> string list" where
  "clean_elem rooted out c =
     (if c = [] \<or> c = ''.'' then out
      else if c = ''..'' then
        (case out of
           [] \<Rightarrow> if rooted then [] else [''..'']
         | t # ts \<Rightarrow> if t = ''..'' then ''..'' # t # ts else ts)
      else c # out)"

definition filepath_Clean :: "string \<Rightarrow> string" where
  "filepath_Clean path =
     (case path of
        [] \<Rightarrow> ''.''
      | p # _ \<Rightarrow>
          let rooted = (p = CHR ''/'');
              out = rev (foldl (clean_elem rooted) [] (strings_Split path CHR ''/''));
              res = (if rooted then ''/'' else []) @ strings_Join out ''/''
          in if res = [] then ''.'' else res)"

text \<open>\<open>filepath.Join\<close> of two elements: the elements before the first non-empty one are left out.\<close>

definition filepath_Join :: "string \<Rightarrow> string \<Rightarrow> string" where
  "filepath_Join d f =
     (if d \<noteq> [] then filepath_Clean (d @ ''/'' @ f)
      else if f \<noteq> [] then filepath_Clean f
      else [])"

subsection \<open>File names\<close>

text \<open>
  The variable \<open>filename\<close> of \<open>fullFilename\<close>: the fields of the block printed with
  \<open>%v\<close> and joined by colons, without the data encoding when it is empty.
\<close>

definition wal_filename :: "('u, 'e) env \<Rightarrow> ('u, 'e) v2AppendBlock \<Rightarrow> string" where
  "wal_filename ev a =
     (if DataEncoding (meta a) = []
      then uuid_String ev (BlockID (meta a)) @ '':'' @ TenantID (meta a) @ '':'' @
           Version (meta a) @ '':'' @ Encoding_String ev (Encoding (meta a))
      else uuid_String ev (BlockID (meta a)) @ '':'' @ TenantID (meta a) @ '':'' @
           Version (meta a) @ '':'' @ Encoding_String ev (Encoding (meta a)) @ '':'' @
           DataEncoding (meta a))"

definition fullFilename :: "('u, 'e) env \<Rightarrow> ('u, 'e) v2AppendBlock \<Rightarrow> string" where
  "fullFilename ev a =
     (if Version (meta a) = ''v0''
      then filepath_Join (filepath a)
             (uuid_String ev (BlockID (meta a)) @ '':'' @ TenantID (meta a))
      else filepath_Join (filepath a) (wal_filename ev a))"

definition ParseFilename ::
  "('u, 'e) env \<Rightarrow> string \<Rightarrow> err + ('u \<times> string \<times> string \<times> 'e \<times> string)" where
  "ParseFilename ev filename =
     (let splits = strings_Split filename CHR '':'' in
      if length splits \<noteq> 4 \<and> length splits \<noteq> 5
      then Inl (ErrMsg (''unable to parse '' @ filename @ ''. unexpected number of segments''))
      else
        case uuid_Parse ev (splits ! 0) of
          Inl e \<Rightarrow> Inl (ErrWrap (''unable to parse '' @ filename @ ''. error parsing uuid'') e)
        | Inr ident \<Rightarrow>
            let tenant = splits ! 1 in
            if length tenant = 0
            then Inl (ErrMsg (''unable to parse '' @ filename @ ''. missing fields''))
            else
              let version = splits ! 2 in
              if version \<noteq> VersionString ev
              then Inl (ErrMsg (''unable to parse '' @ filename @ ''. error parsing version''))
              else
                (case ParseEncoding ev (splits ! 3) of
                   Inl e \<Rightarrow>
                     Inl (ErrWrap (''unable to parse '' @ filename @ ''. error parsing encoding'') e)
                 | Inr encoding \<Rightarrow>
                     (let dataEncoding = (if length splits = 5 then splits ! 4 else [])
                      in Inr (ident, tenant, version, encoding, dataEncoding))))"

subsection \<open>Creating a block\<close>

definition maxDataEncodingLength :: nat where
  "maxDataEncodingLength = 32"

text \<open>
  Modelled from the spec: \<open>backend.NewBlockMeta\<close> is not among the files at hand. It
  builds the metadata record of section 3 from the identifying fields, with no objects.
  Nothing says what the two times of a new record are: they are the argument \<open>init\<close>.
\<close>

definition NewBlockMeta ::
  "string \<Rightarrow> 'u \<Rightarrow> string \<Rightarrow> 'e \<Rightarrow> string \<Rightarrow> time \<times> time \<Rightarrow> ('u, 'e) BlockMeta" where
  "NewBlockMeta tenantID blockID version e dataEncoding init =
     \<lparr>Version = version, BlockID = blockID, TenantID = tenantID,
      StartTime = fst init, EndTime = snd init, TotalObjects = 0,
      Encoding = e, DataEncoding = dataEncoding\<rparr>"

definition newAppendBlock ::
  "('u, 'e) env \<Rightarrow> 'u \<Rightarrow> string \<Rightarrow> string \<Rightarrow> 'e \<Rightarrow> string \<Rightarrow> duration \<Rightarrow> time \<times> time
     \<Rightarrow> err + ('u, 'e) v2AppendBlock" where
  "newAppendBlock ev ident tenantID path e dataEncoding slack init =
     (if CHR '':'' \<in> set dataEncoding \<or> rune_count dataEncoding > maxDataEncodingLength
      then Inl (ErrMsg (''dataEncoding '' @ dataEncoding @ '' is invalid''))
      else
        let h = \<lparr>meta = NewBlockMeta tenantID ident (VersionString ev) e dataEncoding init,
                 ingestionSlack = slack, appendFile = None, appender = [],
                 filepath = path, readFile = None, once = False\<rparr>;
            name = fullFilename ev h
        in case os_OpenFile ev name O_APPEND_CREATE_TRUNC of
             Some er \<Rightarrow> Inl er
           | None \<Rightarrow>
               (case NewDataWriter ev e of
                  Some er \<Rightarrow> Inl er
                | None \<Rightarrow> Inr (h\<lparr>appendFile := Some name\<rparr>)))"

subsection \<open>The read file\<close>

text \<open>
  \<open>file()\<close>, here \<open>block_file\<close>: the function given to \<open>once.Do\<close> runs in the first call only, and
  \<open>err\<close> is a variable of the call, \<open>nil\<close> unless that function sets it. A failed
  \<open>os.OpenFile\<close> returns a nil handle.
\<close>

definition block_file ::
  "('u, 'e) env \<Rightarrow> ('u, 'e) v2AppendBlock
     \<Rightarrow> (string option \<times> err option) \<times> ('u, 'e) v2AppendBlock" where
  "block_file ev a =
     (if once a then ((readFile a, None), a)
      else
        let a = a\<lparr>once := True\<rparr> in
        if readFile a = None then
          let name = fullFilename ev a in
          (case os_OpenFile ev name O_RDONLY of
             None \<Rightarrow> ((Some name, None), a\<lparr>readFile := Some name\<rparr>)
           | Some er \<Rightarrow> ((None, Some er), a\<lparr>readFile := None\<rparr>))
        else ((readFile a, None), a))"

subsection \<open>adjustTimeRangeForSlack\<close>

definition adjustTimeRangeForSlack ::
  "('u, 'e) v2AppendBlock \<Rightarrow> time \<Rightarrow> u32 \<Rightarrow> u32 \<Rightarrow> duration \<Rightarrow> counter_vec
     \<Rightarrow> (u32 \<times> u32) \<times> counter_vec" where
  "adjustTimeRangeForSlack a now start end additionalStartSlack metric =
     (let startOfRange =
            uint32_of (time_Unix (time_Add (time_Add now (- ingestionSlack a))
                                           (- additionalStartSlack)));
          endOfRange = uint32_of (time_Unix (time_Add now (ingestionSlack a)));
          warn = False;
          (warn, start) =
            (if start < startOfRange then (True, uint32_of (time_Unix now))
             else (warn, start));
          (warn, end) =
            (if end > endOfRange then (True, uint32_of (time_Unix now))
             else (warn, end));
          metric =
            (if warn
             then counter_Inc metric (TenantID (meta a)) ReasonOutsideIngestionSlack
             else metric)
      in ((start, end), metric))"

text \<open>
  The window the specification describes: \<open>[now - slack, now + slack]\<close> in Unix
  seconds, for comparison with what \<open>adjustTimeRangeForSlack\<close> checks.
\<close>

definition in_slack_window :: "time \<Rightarrow> duration \<Rightarrow> u32 \<Rightarrow> bool" where
  "in_slack_window now slack v \<longleftrightarrow>
     uint32_of (time_Unix (time_Add now (- slack))) \<le> v \<and>
     v \<le> uint32_of (time_Unix (time_Add now slack))"

subsection \<open>Replaying a WAL file\<close>

text \<open>
  The variables the function given to \<open>ReplayWALAndGetRecords\<close> captures and changes,
  and the warning counters.
\<close>

record replay_state =
  blockStart :: u32
  blockEnd :: u32
  warnings_Metric :: counter_vec

text \<open>
  The function literal of \<open>newAppendBlockFromFile\<close>, called on the object bytes of each
  page. \<open>now\<close> is what \<open>time.Now()\<close> returns during the call.
\<close>

definition handleObj ::
  "ObjectDecoder \<Rightarrow> ('u, 'e) v2AppendBlock \<Rightarrow> duration \<Rightarrow> time \<Rightarrow> bytes \<Rightarrow> replay_state
     \<Rightarrow> err option \<times> replay_state" where
  "handleObj dec b additionalStartSlack now obj st =
     (let (start, end, er) = FastRange dec obj;
          (start, end) =
            (if er = Some ErrUnsupported
             then (uint32_of (time_Unix now), uint32_of (time_Unix now))
             else (start, end))
      in if er \<noteq> None then (er, st)
         else
           let ((start, end), metric) =
                 adjustTimeRangeForSlack b now start end additionalStartSlack
                   (warnings_Metric st);
               st = st\<lparr>warnings_Metric := metric\<rparr>;
               st = (if start < blockStart st then st\<lparr>blockStart := start\<rparr> else st);
               st = (if end > blockEnd st then st\<lparr>blockEnd := end\<rparr> else st)
           in (None, st))"



definition MaxUint32 :: u32 where
  "MaxUint32 = 4294967295"


subsection \<open>Appending\<close>



subsection \<open>Reading\<close>

text \<open>
  Modelled from the spec: \<open>RecordsForID\<close> of the appender, the records of the index with
  the given trace id (section 4.2).
\<close>

definition RecordsForID :: "Record list \<Rightarrow> bytes \<Rightarrow> Record list" where
  "RecordsForID rs ident = filter (\<lambda>r. rec_ID r = ident) rs"

text \<open>
  \<open>FindTraceByID\<close> returns the Go pair \<open>(trace, err)\<close> as a sum, \<open>Inr None\<close> for
  \<open>(nil, nil)\<close>, and the block, whose read file the call may have opened.
\<close>

definition FindTraceByID ::
  "('u, 'e) env \<Rightarrow> ('u, 'e) v2AppendBlock \<Rightarrow> Context \<Rightarrow> bytes
     \<Rightarrow> (err + Trace option) \<times> ('u, 'e) v2AppendBlock" where
  "FindTraceByID ev a ctx ident =
     (let records = RecordsForID (appender a) ident;
          ((f, er), a) = block_file ev a
      in case er of
           Some er \<Rightarrow> (Inl er, a)
         | None \<Rightarrow>
             if length records = 0 then (Inr None, a)
             else
               (case NewDataReader ev f (Encoding (meta a)) of
                  Some er \<Rightarrow> (Inl er, a)
                | None \<Rightarrow>
                    (case finder_Find ev context_Background f records
                            (DataEncoding (meta a)) ident of
                       Inl er \<Rightarrow> (Inl er, a)
                     | Inr None \<Rightarrow> (Inr None, a)
                     | Inr (Some obj) \<Rightarrow>
                         (case NewObjectDecoder ev (DataEncoding (meta a)) of
                            Inl er \<Rightarrow> (Inl er, a)
                          | Inr dec \<Rightarrow> (PrepareForRead dec obj, a)))))"

text \<open>
  \<open>Iterator\<close>, up to the iterator it returns: the records it will visit and the decoder.
\<close>

record commonIterator =
  iter :: "Record list"
  dec :: ObjectDecoder

definition Iterator ::
  "('u, 'e) env \<Rightarrow> ('u, 'e) v2AppendBlock
     \<Rightarrow> (err + commonIterator) \<times> ('u, 'e) v2AppendBlock" where
  "Iterator ev a =
     (case (case appendFile a of None \<Rightarrow> None | Some h \<Rightarrow> os_Close ev h) of
        Some er \<Rightarrow> (Inl er, a)
      | None \<Rightarrow>
          let a = a\<lparr>appendFile := None\<rparr>;
              records = appender a;
              ((f, er), a) = block_file ev a
          in (case er of
               Some er \<Rightarrow> (Inl er, a)
             | None \<Rightarrow>
                 (case NewDataReader ev f (Encoding (meta a)) of
                    Some er \<Rightarrow> (Inl er, a)
                  | None \<Rightarrow>
                      (case NewDedupingIterator ev (DataEncoding (meta a)) of
                         Some er \<Rightarrow> (Inl er, a)
                       | None \<Rightarrow>
                           (case NewObjectDecoder ev (DataEncoding (meta a)) of
                              Inl er \<Rightarrow> (Inl (ErrWrap ''creating object decoder'' er), a)
                            | Inr d \<Rightarrow> (Inr \<lparr>iter = records, dec = d\<rparr>, a))))))"

subsection \<open>What a replay has seen\<close>



section \<open>The instance\<close>

text \<open>
  Modelled from the spec: \<open>instance.go\<close> and the limiter are not among the files at
  hand, only their tests in \<open>instance_test.go\<close> are. What follows is the instance of
  sections 3, 4.1, 4.4 and 4.5 of the specification: the live-trace table, the set of
  poisoned trace ids, the head block and the completing blocks. The table is keyed by
  the full trace id (section 4.5 stores it to tell colliding fingerprints apart) and kept
  in the order the traces were created. The head block is the sequence of the traces cut
  into it; its writes are taken to succeed.
\<close>

datatype push_error =
    LiveTracesExceeded
  | TraceTooLarge bytes string nat nat

record liveTrace =
  traceID :: bytes
  byte_size :: nat
  lastAppend :: time
  batches :: "bytes list"

record Limits =
  max_local_traces_per_user :: nat
  max_bytes_per_trace :: nat
  max_bytes_per_request :: nat

record Limiter =
  limits :: Limits
  healthy_peers :: nat

record 'u wal_block =
  block_id :: 'u
  objects :: "(bytes \<times> bytes list) list"

record 'u Instance =
  instanceID :: string
  traces :: "liveTrace list"
  tooLarge :: "bytes set"
  headBlock :: "'u wal_block"
  completingBlocks :: "'u wal_block list"
  lastBlockCut :: time

text \<open>
  Modelled from the spec (section 4.4): the limit of one instance is
  \<open>max_local_traces_per_user / max(1, healthy_peers())\<close>, rounded up; zero means no limit.
\<close>

definition local_limit :: "Limiter \<Rightarrow> nat" where
  "local_limit lim =
     (max_local_traces_per_user (limits lim) + max 1 (healthy_peers lim) - 1)
       div max 1 (healthy_peers lim)"

definition find_live :: "liveTrace list \<Rightarrow> bytes \<Rightarrow> liveTrace option" where
  "find_live ts ident = find (\<lambda>t. traceID t = ident) ts"

text \<open>
  The \<open>byte_size\<close> of the live trace with the given id, 0 when the table holds none: a
  push of a batch makes the trace exceed \<open>max_bytes_per_trace\<close> when this size and the
  length of the batch together are above the limit.
\<close>

definition live_size :: "liveTrace list \<Rightarrow> bytes \<Rightarrow> nat" where
  "live_size ts ident = (case find_live ts ident of None \<Rightarrow> 0 | Some t \<Rightarrow> byte_size t)"

fun put_live :: "liveTrace \<Rightarrow> liveTrace list \<Rightarrow> liveTrace list" where
  "put_live t [] = [t]"
| "put_live t (x # xs) = (if traceID x = traceID t then t # xs else x # put_live t xs)"

text \<open>
  Modelled from the spec (section 4.1, \<open>PushBytes\<close>): a push to a poisoned id fails with
  \<open>TraceTooLarge\<close>; a push that would create a live trace fails with
  \<open>LiveTracesExceeded\<close> when the table has reached the limit; otherwise the batch is
  appended to the live trace, and when the resulting size exceeds
  \<open>max_bytes_per_trace\<close> the id is poisoned and the push fails with \<open>TraceTooLarge\<close>,
  as the second push of \<open>TestInstanceFailsLargeTracesEvenAfterFlushing\<close> does. The error
  carries the trace id, the instance, the limit and the size of the batch.
\<close>

definition PushBytes ::
  "Limiter \<Rightarrow> 'u Instance \<Rightarrow> time \<Rightarrow> bytes \<Rightarrow> bytes \<Rightarrow> push_error option \<times> 'u Instance" where
  "PushBytes lim i now ident batch =
     (let maxBytes = max_bytes_per_trace (limits lim) in
      if ident \<in> tooLarge i
      then (Some (TraceTooLarge ident (instanceID i) maxBytes (length batch)), i)
      else if find_live (traces i) ident = None \<and> local_limit lim \<noteq> 0
              \<and> length (traces i) \<ge> local_limit lim
      then (Some LiveTracesExceeded, i)
      else
        let t = (case find_live (traces i) ident of
                   None \<Rightarrow> \<lparr>traceID = ident, byte_size = 0, lastAppend = now, batches = []\<rparr>
                 | Some t \<Rightarrow> t);
            t = t\<lparr>batches := batches t @ [batch], byte_size := byte_size t + length batch,
                  lastAppend := now\<rparr>;
            i = i\<lparr>traces := put_live t (traces i)\<rparr>
        in if maxBytes \<noteq> 0 \<and> byte_size t > maxBytes
           then (Some (TraceTooLarge ident (instanceID i) maxBytes (length batch)),
                 i\<lparr>tooLarge := insert ident (tooLarge i)\<rparr>)
           else (None, i))"


text \<open>
  The rule \<open>TestInstanceCutCompleteTraces\<close> and scenario 5 of section 8 fix: with a
  cutoff of two hours, a trace last appended to an hour ago and one last appended to in
  an hour are both cut, which \<open>cut_rule_4_1\<close> denies for both. A trace is cut when the
  call is immediate or its last append lies before \<open>now + cutoff\<close>.
\<close>

definition trace_complete :: "time \<Rightarrow> duration \<Rightarrow> bool \<Rightarrow> liveTrace \<Rightarrow> bool" where
  "trace_complete now cutoff immediate t \<longleftrightarrow> immediate \<or> lastAppend t < time_Add now cutoff"

text \<open>
  Modelled from the spec (section 4.1, \<open>CutCompleteTraces\<close>): every live trace that is
  complete is appended to the head block and removed from the table; the rule for
  complete traces is \<open>trace_complete\<close>, that of the test.
\<close>

definition CutCompleteTraces :: "'u Instance \<Rightarrow> time \<Rightarrow> duration \<Rightarrow> bool \<Rightarrow> 'u Instance" where
  "CutCompleteTraces i now cutoff immediate =
     i\<lparr>traces := filter (\<lambda>t. \<not> trace_complete now cutoff immediate t) (traces i),
       headBlock := (headBlock i)
         \<lparr>objects := objects (headBlock i) @
                     map (\<lambda>t. (traceID t, batches t))
                       (filter (trace_complete now cutoff immediate) (traces i))\<rparr>\<rparr>"

definition data_length :: "'u wal_block \<Rightarrow> nat" where
  "data_length b = sum_list (map (\<lambda>(ident, bs). sum_list (map length bs)) (objects b))"

text \<open>
  Modelled from the spec (section 4.1, \<open>CutBlockIfReady\<close>): the head block is cut when
  the call is immediate, the time since the last cut has reached \<open>max_block_lifetime\<close>
  or the head block holds \<open>max_block_bytes\<close>. The cut moves the head block to the
  completing blocks, starts an empty head block under the id \<open>new_id\<close>, notes the time
  and clears the set of poisoned ids; the result is the id of the block cut, or nothing.
\<close>

definition CutBlockIfReady ::
  "'u Instance \<Rightarrow> time \<Rightarrow> 'u \<Rightarrow> duration \<Rightarrow> nat \<Rightarrow> bool \<Rightarrow> 'u option \<times> 'u Instance" where
  "CutBlockIfReady i now new_id max_block_lifetime max_block_bytes immediate =
     (if immediate \<or> now - lastBlockCut i \<ge> sint max_block_lifetime
         \<or> data_length (headBlock i) \<ge> max_block_bytes
      then (Some (block_id (headBlock i)),
            i\<lparr>completingBlocks := completingBlocks i @ [headBlock i],
              headBlock := \<lparr>block_id = new_id, objects = []\<rparr>,
              lastBlockCut := now, tooLarge := {}\<rparr>)
      else (None, i))"

text \<open>
  Modelled from the spec: a new instance has no live traces, no poisoned ids and an empty
  head block.
\<close>

definition newInstance :: "string \<Rightarrow> 'u \<Rightarrow> time \<Rightarrow> 'u Instance" where
  "newInstance tenant head_id now =
     \<lparr>instanceID = tenant, traces = [], tooLarge = {},
      headBlock = \<lparr>block_id = head_id, objects = []\<rparr>,
      completingBlocks = [], lastBlockCut = now\<rparr>"

text \<open>
  Sequences of calls: the operations of an instance as data, what one does to the
  instance, whether it cuts the head block, and a run of several.
\<close>

datatype 'u instance_op =
    OpPushBytes time bytes bytes
  | OpCutCompleteTraces time duration bool
  | OpCutBlockIfReady time 'u duration nat bool

fun run_op :: "Limiter \<Rightarrow> 'u Instance \<Rightarrow> 'u instance_op \<Rightarrow> 'u Instance" where
  "run_op lim i (OpPushBytes now ident batch) = snd (PushBytes lim i now ident batch)"
| "run_op lim i (OpCutCompleteTraces now cutoff immediate) =
     CutCompleteTraces i now cutoff immediate"
| "run_op lim i (OpCutBlockIfReady now new_id lifetime bytes immediate) =
     snd (CutBlockIfReady i now new_id lifetime bytes immediate)"

fun cuts_block :: "'u Instance \<Rightarrow> 'u instance_op \<Rightarrow> bool" where
  "cuts_block i (OpCutBlockIfReady now new_id lifetime bytes immediate) =
     (fst (CutBlockIfReady i now new_id lifetime bytes immediate) \<noteq> None)"
| "cuts_block i op = False"

fun run_ops :: "Limiter \<Rightarrow> 'u Instance \<Rightarrow> 'u instance_op list \<Rightarrow> 'u Instance" where
  "run_ops lim i [] = i"
| "run_ops lim i (op # ops) = run_ops lim (run_op lim i op) ops"

fun no_block_cut :: "Limiter \<Rightarrow> 'u Instance \<Rightarrow> 'u instance_op list \<Rightarrow> bool" where
  "no_block_cut lim i [] = True"
| "no_block_cut lim i (op # ops) = (\<not> cuts_block i op \<and> no_block_cut lim (run_op lim i op) ops)"

text \<open>Pushes one after the other: the result of each, and the instance at the end.\<close>

fun push_all ::
  "Limiter \<Rightarrow> 'u Instance \<Rightarrow> (time \<times> bytes \<times> bytes) list \<Rightarrow> push_error option list \<times> 'u Instance" where
  "push_all lim i [] = ([], i)"
| "push_all lim i ((now, ident, batch) # ps) =
     (case PushBytes lim i now ident batch of
        (r, i') \<Rightarrow> (case push_all lim i' ps of (rs, i'') \<Rightarrow> (r # rs, i'')))"

section \<open>A concrete environment\<close>

text \<open>
  An environment to run the model in: UUIDs as their sixteen bytes, printed and parsed
  in the canonical form \<open>xxxxxxxx-xxxx-xxxx-xxxx-xxxxxxxxxxxx\<close>; three encodings and
  their names; the version string \<open>v2\<close> of the example in the comment of
  \<open>ParseFilename\<close>; a decoder \<open>v1\<close> whose \<open>FastRange\<close> is unsupported and a decoder
  \<open>v2\<close> that reads start and end from the first eight bytes of the object; a finder
  that honours its context.
\<close>

definition hexdigit :: "nat \<Rightarrow> char" where
  "hexdigit n = ''0123456789abcdef'' ! n"

definition hex_byte :: "8 word \<Rightarrow> string" where
  "hex_byte b = [hexdigit (unat b div 16), hexdigit (unat b mod 16)]"

definition hex_bytes :: "bytes \<Rightarrow> string" where
  "hex_bytes bs = concat (map hex_byte bs)"

definition ex_uuid_String :: "bytes \<Rightarrow> string" where
  "ex_uuid_String u =
     hex_bytes (take 4 u) @ ''-'' @ hex_bytes (take 2 (drop 4 u)) @ ''-'' @
     hex_bytes (take 2 (drop 6 u)) @ ''-'' @ hex_bytes (take 2 (drop 8 u)) @ ''-'' @
     hex_bytes (drop 10 u)"

definition xvalue :: "char \<Rightarrow> nat option" where
  "xvalue c =
     (let n = (of_char c :: nat) in
      if 48 \<le> n \<and> n \<le> 57 then Some (n - 48)
      else if 97 \<le> n \<and> n \<le> 102 then Some (n - 87)
      else if 65 \<le> n \<and> n \<le> 70 then Some (n - 55)
      else None)"

fun parse_hex :: "string \<Rightarrow> bytes option" where
  "parse_hex [] = Some []"
| "parse_hex [c] = None"
| "parse_hex (c # d # cs) =
     (case (xvalue c, xvalue d, parse_hex cs) of
        (Some h, Some l, Some bs) \<Rightarrow> Some (word_of_nat (16 * h + l) # bs)
      | _ \<Rightarrow> None)"

definition ex_uuid_Parse :: "string \<Rightarrow> err + bytes" where
  "ex_uuid_Parse s =
     (if length s \<noteq> 36 then Inl (ErrMsg ''invalid UUID length'')
      else if s ! 8 \<noteq> CHR ''-'' \<or> s ! 13 \<noteq> CHR ''-'' \<or> s ! 18 \<noteq> CHR ''-'' \<or> s ! 23 \<noteq> CHR ''-''
      then Inl (ErrMsg ''invalid UUID format'')
      else
        case parse_hex (take 8 s @ take 4 (drop 9 s) @ take 4 (drop 14 s) @
                        take 4 (drop 19 s) @ drop 24 s) of
          None \<Rightarrow> Inl (ErrMsg ''invalid UUID format'')
        | Some u \<Rightarrow> Inr u)"

datatype backend_Encoding = EncNone | EncGZIP | EncSnappy

definition ex_Encoding_String :: "backend_Encoding \<Rightarrow> string" where
  "ex_Encoding_String e = (case e of EncNone \<Rightarrow> ''none'' | EncGZIP \<Rightarrow> ''gzip'' | EncSnappy \<Rightarrow> ''snappy'')"

definition ex_ParseEncoding :: "string \<Rightarrow> err + backend_Encoding" where
  "ex_ParseEncoding s =
     (if s = ''none'' then Inr EncNone
      else if s = ''gzip'' then Inr EncGZIP
      else if s = ''snappy'' then Inr EncSnappy
      else Inl (ErrMsg (s @ '' is not a valid Encoding'')))"

definition le_uint32 :: "bytes \<Rightarrow> u32" where
  "le_uint32 bs = word_of_nat (unat (bs ! 0) + 256 * unat (bs ! 1) + 65536 * unat (bs ! 2) +
                               16777216 * unat (bs ! 3))"

definition ex_dec_v1 :: ObjectDecoder where
  "ex_dec_v1 = \<lparr>FastRange = (\<lambda>obj. (0, 0, Some ErrUnsupported)),
                PrepareForRead = (\<lambda>obj. Inr (Some [obj]))\<rparr>"

definition ex_dec_v2 :: ObjectDecoder where
  "ex_dec_v2 =
     \<lparr>FastRange = (\<lambda>obj. if length obj < 8 then (0, 0, Some (ErrMsg ''object too short''))
                         else (le_uint32 (take 4 obj), le_uint32 (take 4 (drop 4 obj)), None)),
      PrepareForRead = (\<lambda>obj. Inr (Some [drop 8 obj]))\<rparr>"

definition ex_NewObjectDecoder :: "string \<Rightarrow> err + ObjectDecoder" where
  "ex_NewObjectDecoder d =
     (if d = ''v1'' then Inr ex_dec_v1
      else if d = ''v2'' then Inr ex_dec_v2
      else Inl (ErrMsg (d @ '' is not a valid block encoding'')))"

definition ex_finder_Find ::
  "Context \<Rightarrow> string option \<Rightarrow> Record list \<Rightarrow> string \<Rightarrow> bytes \<Rightarrow> err + bytes option" where
  "ex_finder_Find ctx f rs d ident =
     (if ctx_cancelled ctx then Inl Cancelled
      else if rs = [] then Inr None
      else Inr (Some ident))"

text \<open>The environment is given the files that exist and what they hold.\<close>

definition ex_env :: "(string \<Rightarrow> wal_page list option) \<Rightarrow> (bytes, backend_Encoding) env" where
  "ex_env files =
     \<lparr>uuid_String = ex_uuid_String, uuid_Parse = ex_uuid_Parse,
      Encoding_String = ex_Encoding_String, ParseEncoding = ex_ParseEncoding,
      VersionString = ''v2'',
      os_OpenFile = (\<lambda>name flag. if flag = O_RDONLY \<and> files name = None
                                   then Some (ErrMsg (''open '' @ name @ '': no such file or directory''))
                                   else None),
      os_Close = (\<lambda>name. None),
      wal_pages = (\<lambda>name. case files name of None \<Rightarrow> [] | Some ps \<Rightarrow> ps),
      NewDataWriter = (\<lambda>e. None),
      NewDataReader = (\<lambda>f e. None),
      NewObjectDecoder = ex_NewObjectDecoder,
      NewDedupingIterator = (\<lambda>d. None),
      finder_Find = ex_finder_Find\<rparr>"

definition no_files :: "string \<Rightarrow> wal_page list option" where
  "no_files = (\<lambda>name. None)"

definition ex_id :: bytes where
  "ex_id = [0, 0, 0, 0, 0, 0, 0, 0, 0, 0, 0, 0, 0, 0, 0, 0]"

definition no_warnings :: counter_vec where
  "no_warnings = (\<lambda>k. 0)"

text \<open>
  A block of tenant \<open>fake\<close> with two minutes of ingestion slack, and a time half a
  second after Unix second 1700000000.
\<close>

definition ex_block :: "(bytes, backend_Encoding) v2AppendBlock" where
  "ex_block =
     \<lparr>meta = NewBlockMeta ''fake'' ex_id ''v2'' EncNone ''v2'' (0, 0),
      ingestionSlack = 120000000000, appendFile = None, appender = [],
      filepath = ''/var/tempo/wal'', readFile = None, once = False\<rparr>"

definition ex_now :: time where
  "ex_now = 1700000000500000000"

text \<open>
  The trace id of \<open>TestInstanceFailsLargeTracesEvenAfterFlushing\<close>, the name of the
  file of \<open>ex_block\<close>, and that block with one record of the trace in its index.
\<close>

definition ex_trace_id :: bytes where
  "ex_trace_id = [1, 2, 3, 4, 5, 6, 7, 8, 9, 10, 11, 12, 13, 14, 15, 16]"

definition ex_name :: string where
  "ex_name = ''/var/tempo/wal/00000000-0000-0000-0000-000000000000:fake:v2:none:v2''"

definition ex_block_one :: "(bytes, backend_Encoding) v2AppendBlock" where
  "ex_block_one = ex_block\<lparr>appender := [\<lparr>rec_ID = ex_trace_id, rec_Start = 0, rec_Length = 40\<rparr>]\<rparr>"

definition ex_initial :: replay_state where
  "ex_initial = \<lparr>blockStart = MaxUint32, blockEnd = 0, warnings_Metric = no_warnings\<rparr>"

text \<open>A context that has been cancelled, and the files with the file of \<open>ex_block\<close> among them.\<close>

definition ex_cancelled :: Context where
  "ex_cancelled = \<lparr>ctx_cancelled = True\<rparr>"

definition ex_files_one :: "string \<Rightarrow> wal_page list option" where
  "ex_files_one = no_files(ex_name \<mapsto> [Page ex_trace_id ex_trace_id 40])"

text \<open>
  The block \<open>newAppendBlock\<close> returns for the fields of \<open>ex_block\<close>, the name of its
  file without the directory, and the block it returns for a tenant whose name holds a
  colon, in no directory.
\<close>

definition ex_block_new :: "(bytes, backend_Encoding) v2AppendBlock" where
  "ex_block_new = ex_block\<lparr>appendFile := Some ex_name\<rparr>"

definition ex_basename :: string where
  "ex_basename = ''00000000-0000-0000-0000-000000000000:fake:v2:none:v2''"

definition ex_colon_name :: string where
  "ex_colon_name = ''00000000-0000-0000-0000-000000000000:a:b:v2:none:v2''"

definition ex_block_colon :: "(bytes, backend_Encoding) v2AppendBlock" where
  "ex_block_colon =
     \<lparr>meta = NewBlockMeta ''a:b'' ex_id ''v2'' EncNone ''v2'' (0, 0),
      ingestionSlack = 120000000000, appendFile = Some ex_colon_name, appender = [],
      filepath = [], readFile = None, once = False\<rparr>"







text \<open>
  The instances of the tests. \<open>TestInstanceFailsLargeTracesEvenAfterFlushing\<close>: at
  most 100 bytes a trace, and the instance after the first push, of 100 bytes.
  \<open>TestInstanceLimits\<close>: at most four live traces and 1000 bytes a trace, and five
  pushes of 100 bytes with ids of their own. \<open>TestInstanceCutCompleteTraces\<close>: a trace
  last appended to an hour before \<open>ex_now\<close> and one last appended to an hour after it.
  Block ids are numbers here.
\<close>

definition ex_limiter_bytes :: Limiter where
  "ex_limiter_bytes =
     \<lparr>limits = \<lparr>max_local_traces_per_user = 0, max_bytes_per_trace = 100,
                max_bytes_per_request = 0\<rparr>,
      healthy_peers = 1\<rparr>"

definition ex_instance0 :: "nat Instance" where
  "ex_instance0 = newInstance ''fake'' 0 ex_now"

definition ex_instance_full :: "nat Instance" where
  "ex_instance_full = snd (PushBytes ex_limiter_bytes ex_instance0 ex_now ex_trace_id (replicate 100 0))"

definition ex_limiter_traces :: Limiter where
  "ex_limiter_traces =
     \<lparr>limits = \<lparr>max_local_traces_per_user = 4, max_bytes_per_trace = 1000,
                max_bytes_per_request = 0\<rparr>,
      healthy_peers = 1\<rparr>"

definition ex_pushes :: "(time \<times> bytes \<times> bytes) list" where
  "ex_pushes = [(ex_now, [1], replicate 100 0), (ex_now, [2], replicate 100 0),
                (ex_now, [3], replicate 100 0), (ex_now, [4], replicate 100 0)]"

definition ex_push5 :: "time \<times> bytes \<times> bytes" where
  "ex_push5 = (ex_now, [5], replicate 100 0)"




section \<open>Properties of the append block\<close>

subsection \<open>Ingestion slack\<close>

lemma adjustTimeRangeForSlack_in_window:
  assumes "in_slack_window now (ingestionSlack a) start"
    and "in_slack_window now (ingestionSlack a) end"
  shows "adjustTimeRangeForSlack a now start end 0 metric = ((start, end), metric)"
  using assms
  by (auto simp add: adjustTimeRangeForSlack_def Let_def in_slack_window_def time_Add_def)

text \<open>
  C4, as the code has it. \<open>adjustTimeRangeForSlack\<close> checks the start against the lower
  end of the range only, and the end against the upper end only: a start before
  \<open>now - slack - additionalStartSlack\<close> becomes \<open>now\<close>, an end after \<open>now + slack\<close>
  becomes \<open>now\<close>, and the warning counter of the tenant goes up by one exactly when one
  of the two was replaced. A start after the range and an end before it are returned as
  they are. With no additional slack, as in \<open>Append\<close>, values inside
  \<open>[now - slack, now + slack]\<close> are returned unchanged and nothing is counted.
\<close>

theorem adjustTimeRangeForSlack_one_sided:
  "adjustTimeRangeForSlack a now start end additionalStartSlack metric =
     ((if start < uint32_of (time_Unix (time_Add (time_Add now (- ingestionSlack a))
                                                 (- additionalStartSlack)))
       then uint32_of (time_Unix now) else start,
       if end > uint32_of (time_Unix (time_Add now (ingestionSlack a)))
       then uint32_of (time_Unix now) else end),
      if start < uint32_of (time_Unix (time_Add (time_Add now (- ingestionSlack a))
                                                (- additionalStartSlack)))
         \<or> end > uint32_of (time_Unix (time_Add now (ingestionSlack a)))
      then counter_Inc metric (TenantID (meta a)) ReasonOutsideIngestionSlack
      else metric)
   \<and> (in_slack_window now (ingestionSlack a) start \<and> in_slack_window now (ingestionSlack a) end
        \<longrightarrow> adjustTimeRangeForSlack a now start end 0 metric = ((start, end), metric))"
  using adjustTimeRangeForSlack_in_window [of now a start "end" metric]
  by (simp add: adjustTimeRangeForSlack_def Let_def)

theorem adjustTimeRangeForSlack_one_sided_witness:
  "in_slack_window ex_now (ingestionSlack ex_block) 1699999900
   \<and> in_slack_window ex_now (ingestionSlack ex_block) 1700000100
   \<and> adjustTimeRangeForSlack ex_block ex_now 1699999900 1700000100 0 no_warnings
       = ((1699999900, 1700000100), no_warnings)"
proof -
  have w1: "in_slack_window ex_now (ingestionSlack ex_block) 1699999900"
    by (simp add: in_slack_window_def ex_now_def ex_block_def time_Add_def time_Unix_def
        uint32_of_def)
  have w2: "in_slack_window ex_now (ingestionSlack ex_block) 1700000100"
    by (simp add: in_slack_window_def ex_now_def ex_block_def time_Add_def time_Unix_def
        uint32_of_def)
  from adjustTimeRangeForSlack_one_sided
         [of ex_block ex_now 1699999900 1700000100 0 no_warnings, THEN conjunct2] w1 w2
  show ?thesis by blast
qed

text \<open>
  C4 as stated fails: with two minutes of slack, a start 1000 seconds after \<open>now\<close> lies
  outside the window, yet it is returned as it is and no warning is counted.
\<close>

theorem adjustTimeRangeForSlack_keeps_late_start:
  "\<not> in_slack_window ex_now (ingestionSlack ex_block) 1700001000
   \<and> (1700001000 :: u32) \<noteq> uint32_of (time_Unix ex_now)
   \<and> adjustTimeRangeForSlack ex_block ex_now 1700001000 1700000000 0 no_warnings
       = ((1700001000, 1700000000), no_warnings)"
  by (simp add: in_slack_window_def adjustTimeRangeForSlack_def ex_now_def ex_block_def
      time_Add_def time_Unix_def uint32_of_def)

subsection \<open>Objects whose range is unsupported\<close>

lemma handleObj_unsupported:
  assumes "snd (snd (FastRange d obj)) = Some ErrUnsupported"
  shows "handleObj d b additionalStartSlack now obj st = (Some ErrUnsupported, st)"
  using assms by (cases "FastRange d obj") (simp add: handleObj_def)

text \<open>
  C1 on the code. For an object whose \<open>FastRange\<close> is unsupported, the function given to
  the replay sets \<open>start\<close> and \<open>end\<close> to \<open>now\<close> and then returns the error all the
  same, since \<open>err\<close> is still not \<open>nil\<close>: \<open>blockStart\<close> and \<open>blockEnd\<close> stay as they
  were and the replay is handed \<open>ErrUnsupported\<close>.
\<close>

theorem handleObj_v1_object:
  "handleObj ex_dec_v1 ex_block 0 ex_now [] ex_initial = (Some ErrUnsupported, ex_initial)"
  by (simp add: handleObj_def ex_dec_v1_def)

subsection \<open>The lazily opened read file\<close>

lemma fullFilename_once [simp]: "fullFilename ev (a\<lparr>once := x\<rparr>) = fullFilename ev a"
  by (simp add: fullFilename_def wal_filename_def)

lemma fullFilename_appender [simp]: "fullFilename ev (a\<lparr>appender := x\<rparr>) = fullFilename ev a"
  by (simp add: fullFilename_def wal_filename_def)

lemma fullFilename_appendFile [simp]:
  "fullFilename ev (a\<lparr>appendFile := x\<rparr>) = fullFilename ev a"
  by (simp add: fullFilename_def wal_filename_def)

lemma fullFilename_ex_block: "fullFilename (ex_env files) ex_block = ex_name"
  by (simp add: fullFilename_def wal_filename_def filepath_Join_def filepath_Clean_def
      strings_Split_def clean_elem_def ex_env_def ex_block_def NewBlockMeta_def ex_id_def
      ex_uuid_String_def hex_bytes_def hex_byte_def hexdigit_def ex_Encoding_String_def
      ex_name_def)

lemma block_file_fired:
  assumes "once a" and "readFile a = None"
  shows "block_file ev a = ((None, None), a)"
  using assms by (simp add: block_file_def)

lemma FindTraceByID_fired:
  assumes "once a" and "readFile a = None"
  shows "snd (FindTraceByID ev a ctx ident) = a"
  using assms
  by (simp add: FindTraceByID_def block_file_fired Let_def split: option.splits sum.splits)

lemma Iterator_fired:
  assumes "once a" and "readFile a = None"
  shows "once (snd (Iterator ev a)) \<and> readFile (snd (Iterator ev a)) = None"
proof (cases "case appendFile a of None \<Rightarrow> None | Some h \<Rightarrow> os_Close ev h")
  case None
  have "block_file ev (a\<lparr>appendFile := None\<rparr>) = ((None, None), a\<lparr>appendFile := None\<rparr>)"
    using assms by (simp add: block_file_fired)
  with None assms show ?thesis
    by (simp add: Iterator_def Let_def split: option.splits sum.splits)
next
  case (Some er)
  with assms show ?thesis by (simp add: Iterator_def)
qed

text \<open>
  C10. When the first call of \<open>file()\<close> on a block fails to open the file, that call
  returns a nil handle and the error. Every later call, in any environment \<open>ev'\<close>, also
  one where the file could be opened by now, returns a nil handle and a nil error and
  leaves the block as it is: the open is not tried again and its failure is not reported
  again. \<open>FindTraceByID\<close> and \<open>Iterator\<close> leave the block in that state, and
  \<open>FindTraceByID\<close> for an id without records returns \<open>(nil, nil)\<close>.
\<close>

theorem file_open_error_reported_once:
  assumes "\<not> once a" and "readFile a = None"
    and "os_OpenFile ev (fullFilename ev a) O_RDONLY = Some er"
    and "a1 = snd (block_file ev a)"
  shows "fst (block_file ev a) = (None, Some er)
       \<and> block_file ev' a1 = ((None, None), a1)
       \<and> snd (FindTraceByID ev' a1 ctx ident) = a1
       \<and> (RecordsForID (appender a1) ident = []
            \<longrightarrow> fst (FindTraceByID ev' a1 ctx ident) = Inr None)
       \<and> block_file ev'' (snd (Iterator ev' a1)) = ((None, None), snd (Iterator ev' a1))"
proof -
  from assms have first: "block_file ev a = ((None, Some er), a\<lparr>once := True, readFile := None\<rparr>)"
    by (simp add: block_file_def Let_def)
  with assms have a1: "once a1" "readFile a1 = None" by simp_all
  have "RecordsForID (appender a1) ident = [] \<longrightarrow> fst (FindTraceByID ev' a1 ctx ident) = Inr None"
    using a1 by (simp add: FindTraceByID_def block_file_fired Let_def)
  moreover have "block_file ev'' (snd (Iterator ev' a1)) = ((None, None), snd (Iterator ev' a1))"
    using Iterator_fired [OF a1] by (simp add: block_file_fired)
  ultimately show ?thesis
    using first a1 by (simp add: block_file_fired FindTraceByID_fired)
qed

theorem file_open_error_reported_once_witness:
  "\<not> once ex_block \<and> readFile ex_block = None
   \<and> os_OpenFile (ex_env no_files) (fullFilename (ex_env no_files) ex_block) O_RDONLY
       = Some (ErrMsg (''open '' @ ex_name @ '': no such file or directory''))
   \<and> RecordsForID (appender (snd (block_file (ex_env no_files) ex_block))) ex_trace_id = []
   \<and> fst (block_file (ex_env no_files) ex_block)
       = (None, Some (ErrMsg (''open '' @ ex_name @ '': no such file or directory'')))
   \<and> block_file (ex_env (no_files(ex_name \<mapsto> []))) (snd (block_file (ex_env no_files) ex_block))
       = ((None, None), snd (block_file (ex_env no_files) ex_block))
   \<and> fst (FindTraceByID (ex_env (no_files(ex_name \<mapsto> [])))
             (snd (block_file (ex_env no_files) ex_block)) context_Background ex_trace_id)
       = Inr None"
proof -
  have h1: "\<not> once ex_block" and h2: "readFile ex_block = None"
    by (simp_all add: ex_block_def)
  have h3: "os_OpenFile (ex_env no_files) (fullFilename (ex_env no_files) ex_block) O_RDONLY
              = Some (ErrMsg (''open '' @ fullFilename (ex_env no_files) ex_block
                              @ '': no such file or directory''))"
    by (simp add: ex_env_def no_files_def)
  have name: "fullFilename (ex_env no_files) ex_block = ex_name"
    by (rule fullFilename_ex_block)
  have h4: "RecordsForID (appender (snd (block_file (ex_env no_files) ex_block))) ex_trace_id = []"
    by (simp add: block_file_def Let_def RecordsForID_def ex_block_def split: option.splits)
  from file_open_error_reported_once [OF h1 h2 h3 refl,
         of "ex_env (no_files(ex_name \<mapsto> []))" context_Background ex_trace_id] h1 h2 h3 h4 name
  show ?thesis by simp
qed

subsection \<open>Finding a trace and cancellation\<close>

text \<open>
  C9, as the code has it. \<open>FindTraceByID\<close> of the append block never looks at its
  context: the finder is run under \<open>context.Background()\<close>, so the call does for a
  cancelled context exactly what it does for any other.
\<close>

theorem FindTraceByID_ignores_context:
  "FindTraceByID ev a ctx ident = FindTraceByID ev a ctx' ident
   \<and> FindTraceByID ev a ctx ident = FindTraceByID ev a context_Background ident"
  by (simp add: FindTraceByID_def)

text \<open>
  C9 as stated fails: called with a cancelled context on a block that holds a record of
  the trace, with a finder that would return \<open>Cancelled\<close> for that context,
  \<open>FindTraceByID\<close> reads the record and returns the trace.
\<close>

theorem FindTraceByID_cancelled_context_returns_trace:
  "ctx_cancelled ex_cancelled
   \<and> finder_Find (ex_env ex_files_one) ex_cancelled (Some ex_name) (appender ex_block_one)
        ''v2'' ex_trace_id = Inl Cancelled
   \<and> fst (FindTraceByID (ex_env ex_files_one) ex_block_one ex_cancelled ex_trace_id)
       = Inr (Some [[9, 10, 11, 12, 13, 14, 15, 16]])
   \<and> fst (FindTraceByID (ex_env ex_files_one) ex_block_one ex_cancelled ex_trace_id)
       \<noteq> Inl Cancelled"
proof -
  have opened: "block_file (ex_env ex_files_one) ex_block_one
                  = ((Some ex_name, None), ex_block_one\<lparr>once := True, readFile := Some ex_name\<rparr>)"
    by (simp add: block_file_def Let_def ex_block_one_def fullFilename_ex_block)
      (simp add: ex_block_def ex_env_def ex_files_one_def)
  have "fst (FindTraceByID (ex_env ex_files_one) ex_block_one ex_cancelled ex_trace_id)
          = Inr (Some [[9, 10, 11, 12, 13, 14, 15, 16]])"
    by (simp add: FindTraceByID_def opened Let_def)
      (simp add: RecordsForID_def ex_block_one_def ex_block_def ex_env_def
        ex_finder_Find_def context_Background_def NewBlockMeta_def ex_NewObjectDecoder_def
        ex_dec_v2_def ex_trace_id_def)
  moreover have "finder_Find (ex_env ex_files_one) ex_cancelled (Some ex_name)
                   (appender ex_block_one) ''v2'' ex_trace_id = Inl Cancelled"
    by (simp add: ex_env_def ex_finder_Find_def ex_cancelled_def)
  ultimately show ?thesis by (simp add: ex_cancelled_def)
qed

subsection \<open>File names\<close>

lemma split_acc_no_sep: "c \<notin> set a \<Longrightarrow> split_acc c acc a = [rev acc @ a]"
  by (induction a arbitrary: acc) auto

lemma split_acc_sep:
  "c \<notin> set a \<Longrightarrow> split_acc c acc (a @ c # rest) = (rev acc @ a) # split_acc c [] rest"
  by (induction a arbitrary: acc) auto

lemma strings_Split_last: "c \<notin> set a \<Longrightarrow> strings_Split a c = [a]"
  by (simp add: strings_Split_def split_acc_no_sep)

lemma strings_Split_cons:
  "c \<notin> set a \<Longrightarrow> strings_Split (a @ c # rest) c = a # strings_Split rest c"
  by (simp add: strings_Split_def split_acc_sep)

lemma strings_Split_four:
  assumes "c \<notin> set a" "c \<notin> set b" "c \<notin> set d" "c \<notin> set e"
  shows "strings_Split (a @ [c] @ b @ [c] @ d @ [c] @ e) c = [a, b, d, e]"
  using assms by (simp add: strings_Split_cons strings_Split_last)

lemma strings_Split_five:
  assumes "c \<notin> set a" "c \<notin> set b" "c \<notin> set d" "c \<notin> set e" "c \<notin> set f"
  shows "strings_Split (a @ [c] @ b @ [c] @ d @ [c] @ e @ [c] @ f) c = [a, b, d, e, f]"
  using assms by (simp add: strings_Split_cons strings_Split_last)

lemma newAppendBlock_accepted:
  assumes "newAppendBlock ev ident tenantID path e dataEncoding slack init = Inr h"
  shows "meta h = NewBlockMeta tenantID ident (VersionString ev) e dataEncoding init"
    and "CHR '':'' \<notin> set dataEncoding"
    and "rune_count dataEncoding \<le> maxDataEncodingLength"
    and "filepath h = path"
  using assms
  by (auto simp add: newAppendBlock_def Let_def split: if_splits option.splits)

lemma newAppendBlock_rejects:
  assumes "CHR '':'' \<in> set dataEncoding \<or> rune_count dataEncoding > maxDataEncodingLength"
  shows "newAppendBlock ev ident tenantID path e dataEncoding slack init
           = Inl (ErrMsg (''dataEncoding '' @ dataEncoding @ '' is invalid''))"
  using assms by (auto simp add: newAppendBlock_def)

lemma ParseFilename_strict:
  assumes "(length (strings_Split name CHR '':'') \<noteq> 4 \<and> length (strings_Split name CHR '':'') \<noteq> 5)
           \<or> strings_Split name CHR '':'' ! 2 \<noteq> VersionString ev"
  shows "isl (ParseFilename ev name)"
  using assms by (auto simp add: ParseFilename_def Let_def split: sum.splits)

lemma ParseFilename_of_wal_filename:
  assumes acc: "newAppendBlock ev ident tenantID path e dataEncoding slack init = Inr h"
    and tenant: "tenantID \<noteq> []" "CHR '':'' \<notin> set tenantID"
    and uuid: "uuid_Parse ev (uuid_String ev ident) = Inr ident"
      "CHR '':'' \<notin> set (uuid_String ev ident)"
    and enc: "ParseEncoding ev (Encoding_String ev e) = Inr e"
      "CHR '':'' \<notin> set (Encoding_String ev e)"
    and ver: "CHR '':'' \<notin> set (VersionString ev)"
  shows "ParseFilename ev (wal_filename ev h)
           = Inr (ident, tenantID, VersionString ev, e, dataEncoding)"
proof -
  note m = newAppendBlock_accepted(1) [OF acc] and d = newAppendBlock_accepted(2) [OF acc]
  show ?thesis
  proof (cases "dataEncoding = []")
    case True
    have "strings_Split (wal_filename ev h) CHR '':''
            = [uuid_String ev ident, tenantID, VersionString ev, Encoding_String ev e]"
      using strings_Split_four [of "CHR '':''" "uuid_String ev ident" tenantID
              "VersionString ev" "Encoding_String ev e"] tenant uuid enc ver True
      by (simp add: wal_filename_def m NewBlockMeta_def)
    then show ?thesis using tenant uuid enc True
      by (simp add: ParseFilename_def)
  next
    case False
    have "strings_Split (wal_filename ev h) CHR '':''
            = [uuid_String ev ident, tenantID, VersionString ev, Encoding_String ev e,
               dataEncoding]"
      using strings_Split_five [of "CHR '':''" "uuid_String ev ident" tenantID
              "VersionString ev" "Encoding_String ev e" dataEncoding]
            tenant uuid enc ver False d
      by (simp add: wal_filename_def m NewBlockMeta_def)
    then show ?thesis using tenant uuid enc False
      by (simp add: ParseFilename_def)
  qed
qed

text \<open>
  C6, as the code has it. \<open>newAppendBlock\<close> rejects a data encoding that holds a colon or
  has more than 32 runes. For a block it accepts whose tenant id is not empty and holds
  no colon, \<open>fullFilename\<close> joins the directory of the block with the file name
  \<open>blockID:tenantID:version:encoding[:dataEncoding]\<close>, and \<open>ParseFilename\<close> applied to
  that file name, without the directory, returns the block's id, tenant, version, encoding
  and data encoding; this needs of the environment that the UUID parser reads back what
  the printer writes, likewise for the encoding, and that neither these strings nor the
  version string hold a colon. \<open>ParseFilename\<close> fails on every name that does not split
  into 4 or 5 fields or whose third field is not the version string.
\<close>

theorem wal_filename_roundtrip:
  assumes "newAppendBlock ev ident tenantID path e dataEncoding slack init = Inr h"
    and "tenantID \<noteq> []" and "CHR '':'' \<notin> set tenantID"
    and "uuid_Parse ev (uuid_String ev ident) = Inr ident"
    and "CHR '':'' \<notin> set (uuid_String ev ident)"
    and "ParseEncoding ev (Encoding_String ev e) = Inr e"
    and "CHR '':'' \<notin> set (Encoding_String ev e)"
    and "CHR '':'' \<notin> set (VersionString ev)"
    and "VersionString ev \<noteq> ''v0''"
  shows "fullFilename ev h = filepath_Join path (wal_filename ev h)
       \<and> ParseFilename ev (wal_filename ev h)
           = Inr (BlockID (meta h), TenantID (meta h), Version (meta h), Encoding (meta h),
                  DataEncoding (meta h))
       \<and> (BlockID (meta h), TenantID (meta h), Version (meta h), Encoding (meta h),
           DataEncoding (meta h)) = (ident, tenantID, VersionString ev, e, dataEncoding)
       \<and> (CHR '':'' \<in> set d' \<or> rune_count d' > maxDataEncodingLength
            \<longrightarrow> isl (newAppendBlock ev ident' tenantID' path' e' d' slack' init'))
       \<and> ((length (strings_Split name CHR '':'') \<noteq> 4 \<and> length (strings_Split name CHR '':'') \<noteq> 5)
            \<or> strings_Split name CHR '':'' ! 2 \<noteq> VersionString ev
            \<longrightarrow> isl (ParseFilename ev name))"
proof -
  note m = newAppendBlock_accepted(1) [OF assms(1)]
  have fields: "(BlockID (meta h), TenantID (meta h), Version (meta h), Encoding (meta h),
                 DataEncoding (meta h)) = (ident, tenantID, VersionString ev, e, dataEncoding)"
    by (simp add: m NewBlockMeta_def)
  have full: "fullFilename ev h = filepath_Join path (wal_filename ev h)"
    using assms(9) newAppendBlock_accepted(4) [OF assms(1)]
    by (simp add: fullFilename_def m NewBlockMeta_def)
  have parse: "ParseFilename ev (wal_filename ev h)
                 = Inr (ident, tenantID, VersionString ev, e, dataEncoding)"
    using assms(1-8) by (rule ParseFilename_of_wal_filename)
  have rej: "CHR '':'' \<in> set d' \<or> rune_count d' > maxDataEncodingLength
               \<longrightarrow> isl (newAppendBlock ev ident' tenantID' path' e' d' slack' init')"
    by (auto simp add: newAppendBlock_rejects)
  have strict: "(length (strings_Split name CHR '':'') \<noteq> 4 \<and> length (strings_Split name CHR '':'') \<noteq> 5)
                 \<or> strings_Split name CHR '':'' ! 2 \<noteq> VersionString ev
                 \<longrightarrow> isl (ParseFilename ev name)"
    using ParseFilename_strict [of name ev] by blast
  from full parse fields rej strict show ?thesis by simp
qed

lemma rune_count_v2: "rune_count ''v2'' = 2"
  by (simp add: rune_width_def utf8_first_def)

lemma newAppendBlock_ex_block:
  "newAppendBlock (ex_env no_files) ex_id ''fake'' ''/var/tempo/wal'' EncNone ''v2''
     120000000000 (0, 0) = Inr ex_block_new"
proof -
  have v: "VersionString (ex_env no_files) = ''v2''"
    and o: "os_OpenFile (ex_env no_files) ex_name O_APPEND_CREATE_TRUNC = None"
    and w: "NewDataWriter (ex_env no_files) EncNone = None"
    by (simp_all add: ex_env_def)
  show ?thesis
    by (simp add: newAppendBlock_def Let_def maxDataEncodingLength_def rune_count_v2 v
        ex_block_def [symmetric] fullFilename_ex_block o w ex_block_new_def
        del: rune_count.simps)
qed

lemma wal_filename_ex_block: "wal_filename (ex_env files) ex_block_new = ex_basename"
  by (simp add: wal_filename_def ex_env_def ex_block_new_def ex_block_def NewBlockMeta_def
      ex_id_def ex_uuid_String_def hex_bytes_def hex_byte_def hexdigit_def
      ex_Encoding_String_def ex_basename_def)

lemma ex_uuid_roundtrip:
  "ex_uuid_String ex_id = ''00000000-0000-0000-0000-000000000000''"
  "ex_uuid_Parse ''00000000-0000-0000-0000-000000000000'' = Inr ex_id"
  by (simp_all add: ex_uuid_Parse_def ex_uuid_String_def ex_id_def hex_bytes_def hex_byte_def
      hexdigit_def xvalue_def)

theorem wal_filename_roundtrip_witness:
  "newAppendBlock (ex_env no_files) ex_id ''fake'' ''/var/tempo/wal'' EncNone ''v2''
     120000000000 (0, 0) = Inr ex_block_new
   \<and> fullFilename (ex_env no_files) ex_block_new = filepath_Join ''/var/tempo/wal'' ex_basename
   \<and> ParseFilename (ex_env no_files) ex_basename = Inr (ex_id, ''fake'', ''v2'', EncNone, ''v2'')
   \<and> isl (newAppendBlock (ex_env no_files) ex_id ''fake'' ''/var/tempo/wal'' EncNone ''v:2''
            120000000000 (0, 0))
   \<and> strings_Split ''a:b:v1:none'' CHR '':'' ! 2 \<noteq> ''v2''
   \<and> isl (ParseFilename (ex_env no_files) ''a:b:v1:none'')"
proof -
  have e: "uuid_Parse (ex_env no_files) (uuid_String (ex_env no_files) ex_id) = Inr ex_id"
      "CHR '':'' \<notin> set (uuid_String (ex_env no_files) ex_id)"
      "ParseEncoding (ex_env no_files) (Encoding_String (ex_env no_files) EncNone) = Inr EncNone"
      "CHR '':'' \<notin> set (Encoding_String (ex_env no_files) EncNone)"
      "CHR '':'' \<notin> set (VersionString (ex_env no_files))"
      "VersionString (ex_env no_files) \<noteq> ''v0''"
    by (simp_all add: ex_env_def ex_uuid_roundtrip ex_Encoding_String_def ex_ParseEncoding_def)
  have t: "''fake'' \<noteq> []" "CHR '':'' \<notin> set ''fake''" by simp_all
  have c: "CHR '':'' \<in> set ''v:2'' \<or> rune_count ''v:2'' > maxDataEncodingLength" by simp
  have s: "(length (strings_Split ''a:b:v1:none'' CHR '':'') \<noteq> 4
            \<and> length (strings_Split ''a:b:v1:none'' CHR '':'') \<noteq> 5)
           \<or> strings_Split ''a:b:v1:none'' CHR '':'' ! 2 \<noteq> VersionString (ex_env no_files)"
    by (simp add: strings_Split_def ex_env_def)
  have s': "strings_Split ''a:b:v1:none'' CHR '':'' ! 2 \<noteq> ''v2''"
    by (simp add: strings_Split_def)
  from wal_filename_roundtrip [OF newAppendBlock_ex_block t e,
         of "''v:2''" ex_id "''fake''" "''/var/tempo/wal''" EncNone 120000000000 "(0, 0)"
            "''a:b:v1:none''"] c s
  have "fullFilename (ex_env no_files) ex_block_new
          = filepath_Join ''/var/tempo/wal'' (wal_filename (ex_env no_files) ex_block_new)"
    and "ParseFilename (ex_env no_files) (wal_filename (ex_env no_files) ex_block_new)
          = Inr (ex_id, ''fake'', VersionString (ex_env no_files), EncNone, ''v2'')"
    and "isl (newAppendBlock (ex_env no_files) ex_id ''fake'' ''/var/tempo/wal'' EncNone ''v:2''
                120000000000 (0, 0))"
    and "isl (ParseFilename (ex_env no_files) ''a:b:v1:none'')"
    by simp_all
  then show ?thesis
    using newAppendBlock_ex_block s'
    by (simp add: wal_filename_ex_block) (simp add: ex_env_def)
qed

text \<open>
  C6 as stated fails. The name \<open>fullFilename\<close> produces starts with the directory of the
  block, so its first field is no UUID and \<open>ParseFilename\<close> rejects it; and
  \<open>newAppendBlock\<close> accepts a tenant id with a colon, whose file name, here in no
  directory, has six fields.
\<close>

theorem ParseFilename_rejects_fullFilename:
  "newAppendBlock (ex_env no_files) ex_id ''fake'' ''/var/tempo/wal'' EncNone ''v2''
     120000000000 (0, 0) = Inr ex_block_new
   \<and> fullFilename (ex_env no_files) ex_block_new = ex_name
   \<and> isl (ParseFilename (ex_env no_files) (fullFilename (ex_env no_files) ex_block_new))
   \<and> newAppendBlock (ex_env no_files) ex_id ''a:b'' [] EncNone ''v2'' 120000000000 (0, 0)
       = Inr ex_block_colon
   \<and> fullFilename (ex_env no_files) ex_block_colon = ex_colon_name
   \<and> isl (ParseFilename (ex_env no_files) (fullFilename (ex_env no_files) ex_block_colon))"
proof -
  have n1: "fullFilename (ex_env no_files) ex_block_new = ex_name"
    by (simp add: ex_block_new_def fullFilename_ex_block)
  have p1: "isl (ParseFilename (ex_env no_files) ex_name)"
    by (simp add: ParseFilename_def ex_name_def strings_Split_def ex_env_def ex_uuid_Parse_def)
  have n2: "fullFilename (ex_env no_files) ex_block_colon = ex_colon_name"
    by (simp add: fullFilename_def wal_filename_def filepath_Join_def filepath_Clean_def
        strings_Split_def clean_elem_def ex_env_def ex_block_colon_def NewBlockMeta_def
        ex_id_def ex_uuid_String_def hex_bytes_def hex_byte_def hexdigit_def
        ex_Encoding_String_def ex_colon_name_def)
  have p2: "isl (ParseFilename (ex_env no_files) ex_colon_name)"
    by (simp add: ParseFilename_def ex_colon_name_def strings_Split_def)
  have v: "VersionString (ex_env no_files) = ''v2''"
    and o: "os_OpenFile (ex_env no_files) ex_colon_name O_APPEND_CREATE_TRUNC = None"
    and w: "NewDataWriter (ex_env no_files) EncNone = None"
    by (simp_all add: ex_env_def)
  have n2': "fullFilename (ex_env no_files) (ex_block_colon\<lparr>appendFile := None\<rparr>) = ex_colon_name"
    using n2 by simp
  have b2: "newAppendBlock (ex_env no_files) ex_id ''a:b'' [] EncNone ''v2'' 120000000000 (0, 0)
              = Inr ex_block_colon"
    using n2'
    by (simp add: newAppendBlock_def Let_def maxDataEncodingLength_def rune_count_v2 v o w
        ex_block_colon_def del: rune_count.simps)
  from newAppendBlock_ex_block n1 p1 b2 n2 p2 show ?thesis by simp
qed

subsection \<open>Replay\<close>




































section \<open>Properties of the instance\<close>

lemma find_live_None: "find_live ts ident = None \<longleftrightarrow> ident \<notin> traceID ` set ts"
  by (auto simp add: find_live_def find_None_iff)

lemma put_live_ids:
  "map traceID (put_live t ts) =
     (if traceID t \<in> traceID ` set ts then map traceID ts else map traceID ts @ [traceID t])"
  by (induction ts) auto

lemma PushBytes_poisoned:
  assumes "ident \<in> tooLarge i"
  shows "PushBytes lim i now ident batch
           = (Some (TraceTooLarge ident (instanceID i) (max_bytes_per_trace (limits lim)) (length batch)), i)"
  using assms by (simp add: PushBytes_def)

lemma PushBytes_keeps_poison: "tooLarge i \<subseteq> tooLarge (snd (PushBytes lim i now ident batch))"
  by (auto simp add: PushBytes_def Let_def)

lemma PushBytes_instanceID: "instanceID (snd (PushBytes lim i now ident batch)) = instanceID i"
  by (simp add: PushBytes_def Let_def)

lemma PushBytes_TraceTooLarge_poisons:
  assumes "fst (PushBytes lim i now ident batch) = Some (TraceTooLarge tid inst m n)"
  shows "ident \<in> tooLarge (snd (PushBytes lim i now ident batch))"
  using assms by (auto simp add: PushBytes_def Let_def split: if_splits)

lemma PushBytes_exceeds:
  assumes "max_bytes_per_trace (limits lim) \<noteq> 0"
    and "live_size (traces i) ident + length batch > max_bytes_per_trace (limits lim)"
    and "find_live (traces i) ident \<noteq> None \<or> local_limit lim = 0
         \<or> length (traces i) < local_limit lim"
  shows "fst (PushBytes lim i now ident batch)
           = Some (TraceTooLarge ident (instanceID i) (max_bytes_per_trace (limits lim))
                     (length batch))"
proof (cases "ident \<in> tooLarge i")
  case True
  then show ?thesis by (simp add: PushBytes_poisoned)
next
  case False
  show ?thesis
  proof (cases "find_live (traces i) ident")
    case None
    with False assms show ?thesis
      by (auto simp add: PushBytes_def Let_def live_size_def)
  next
    case (Some t)
    with False assms show ?thesis
      by (simp add: PushBytes_def Let_def live_size_def)
  qed
qed

lemma run_op_keeps_poison:
  assumes "\<not> cuts_block i op"
  shows "tooLarge i \<subseteq> tooLarge (run_op lim i op)" and "instanceID (run_op lim i op) = instanceID i"
  using assms PushBytes_keeps_poison [of i lim]
  by (cases op; auto simp add: PushBytes_instanceID CutCompleteTraces_def CutBlockIfReady_def split: if_splits)+

lemma run_ops_keeps_poison:
  assumes "no_block_cut lim i ops"
  shows "tooLarge i \<subseteq> tooLarge (run_ops lim i ops) \<and> instanceID (run_ops lim i ops) = instanceID i"
  using assms
proof (induction ops arbitrary: i)
  case Nil
  then show ?case by simp
next
  case (Cons op ops)
  from Cons.prems have a: "\<not> cuts_block i op" and b: "no_block_cut lim (run_op lim i op) ops" by simp_all
  from Cons.IH [OF b] run_op_keeps_poison [OF a, of lim] show ?case by auto
qed

lemma put_live_new: "traceID t \<notin> traceID ` set ts \<Longrightarrow> put_live t ts = ts @ [t]"
  by (induction ts) auto

lemma PushBytes_fresh_ok:
  assumes "ident \<notin> tooLarge i" and "find_live (traces i) ident = None"
    and "local_limit lim = 0 \<or> length (traces i) < local_limit lim"
    and "max_bytes_per_trace (limits lim) = 0 \<or> length batch \<le> max_bytes_per_trace (limits lim)"
  shows "PushBytes lim i now ident batch =
           (None, i\<lparr>traces := traces i @ [\<lparr>traceID = ident, byte_size = length batch, lastAppend = now, batches = [batch]\<rparr>]\<rparr>)"
proof -
  from assms(2) have "put_live \<lparr>traceID = ident, byte_size = length batch, lastAppend = now, batches = [batch]\<rparr> (traces i)
      = traces i @ [\<lparr>traceID = ident, byte_size = length batch, lastAppend = now, batches = [batch]\<rparr>]"
    unfolding find_live_None by (simp add: put_live_new)
  with assms show ?thesis by (auto simp add: PushBytes_def Let_def)
qed

subsection \<open>Cutting complete traces\<close>




subsection \<open>The limit of live traces\<close>

lemma push_all_append:
  "push_all lim i (ps @ qs) =
     (fst (push_all lim i ps) @ fst (push_all lim (snd (push_all lim i ps)) qs),
      snd (push_all lim (snd (push_all lim i ps)) qs))"
  by (induction ps arbitrary: i) (auto split: prod.splits)

lemma push_all_under_limit:
  assumes "tooLarge i = {}"
    and "distinct (map traceID (traces i) @ map (fst \<circ> snd) ps)"
    and "local_limit lim = 0 \<or> length (traces i) + length ps \<le> local_limit lim"
    and "\<forall>q \<in> set ps. max_bytes_per_trace (limits lim) = 0
                        \<or> length (snd (snd q)) \<le> max_bytes_per_trace (limits lim)"
  shows "fst (push_all lim i ps) = replicate (length ps) None
       \<and> tooLarge (snd (push_all lim i ps)) = {}
       \<and> map traceID (traces (snd (push_all lim i ps))) = map traceID (traces i) @ map (fst \<circ> snd) ps"
  using assms
proof (induction ps arbitrary: i)
  case Nil
  then show ?case by simp
next
  case (Cons p ps)
  obtain now ident batch where p: "p = (now, ident, batch)" by (cases p) auto
  define i' where "i' = i\<lparr>traces := traces i @ [\<lparr>traceID = ident, byte_size = length batch, lastAppend = now, batches = [batch]\<rparr>]\<rparr>"
  have fresh: "find_live (traces i) ident = None"
    using Cons.prems(2) p by (auto simp add: find_live_None)
  have push: "PushBytes lim i now ident batch = (None, i')"
    unfolding i'_def
    using Cons.prems p fresh by (intro PushBytes_fresh_ok) auto
  have "fst (push_all lim i' ps) = replicate (length ps) None
       \<and> tooLarge (snd (push_all lim i' ps)) = {}
       \<and> map traceID (traces (snd (push_all lim i' ps))) = map traceID (traces i') @ map (fst \<circ> snd) ps"
    using Cons.prems p by (intro Cons.IH) (auto simp add: i'_def)
  with p push show ?case by (auto simp add: i'_def split: prod.splits)
qed

text \<open>
  C8. With a limit of \<open>N\<close> live traces, \<open>N\<close> at least one, and one healthy peer, \<open>N\<close>
  pushes with ids of their own to an instance without live traces, each within the
  limit of bytes, all succeed, and the next push with an id of its own returns
  \<open>LiveTracesExceeded\<close>.
\<close>

theorem live_trace_limit:
  assumes "0 < N" and "max_local_traces_per_user (limits lim) = N" and "healthy_peers lim = 1"
    and "traces i = []" and "tooLarge i = {}"
    and "length ps = N" and "distinct (map (fst \<circ> snd) (ps @ [p]))"
    and "\<forall>q \<in> set ps. max_bytes_per_trace (limits lim) = 0
                        \<or> length (snd (snd q)) \<le> max_bytes_per_trace (limits lim)"
  shows "fst (push_all lim i (ps @ [p])) = replicate N None @ [Some LiveTracesExceeded]"
proof -
  have ll: "local_limit lim = N" using assms(2,3) by (simp add: local_limit_def)
  obtain now ident batch where p: "p = (now, ident, batch)" by (cases p) auto
  define i' where "i' = snd (push_all lim i ps)"
  have first: "fst (push_all lim i ps) = replicate (length ps) None
       \<and> tooLarge i' = {}
       \<and> map traceID (traces i') = map traceID (traces i) @ map (fst \<circ> snd) ps"
    unfolding i'_def using assms ll by (intro push_all_under_limit) auto
  then have len: "length (traces i') = N"
    using assms(4,6) by (metis length_map append_Nil list.simps(8))
  have new: "find_live (traces i') ident = None"
  proof -
    have "ident \<notin> set (map traceID (traces i'))"
      using first assms(4,7) p by auto
    then show ?thesis by (simp add: find_live_None)
  qed
  have "PushBytes lim i' now ident batch = (Some LiveTracesExceeded, i')"
    using first new len ll assms(1) by (simp add: PushBytes_def)
  then show ?thesis
    using first assms(6) p by (simp add: push_all_append i'_def)
qed

theorem live_trace_limit_witness:
  "(0::nat) < 4 \<and> max_local_traces_per_user (limits ex_limiter_traces) = 4
   \<and> healthy_peers ex_limiter_traces = 1
   \<and> traces ex_instance0 = [] \<and> tooLarge ex_instance0 = {}
   \<and> length ex_pushes = 4 \<and> distinct (map (fst \<circ> snd) (ex_pushes @ [ex_push5]))
   \<and> list_all (\<lambda>q. length (snd (snd q)) \<le> max_bytes_per_trace (limits ex_limiter_traces))
        ex_pushes
   \<and> fst (push_all ex_limiter_traces ex_instance0 (ex_pushes @ [ex_push5]))
       = [None, None, None, None, Some LiveTracesExceeded]"
proof -
  have h: "(0::nat) < 4" "max_local_traces_per_user (limits ex_limiter_traces) = 4"
      "healthy_peers ex_limiter_traces = 1"
      "traces ex_instance0 = []" "tooLarge ex_instance0 = {}"
      "length ex_pushes = 4" "distinct (map (fst \<circ> snd) (ex_pushes @ [ex_push5]))"
      "\<forall>q \<in> set ex_pushes. max_bytes_per_trace (limits ex_limiter_traces) = 0
                        \<or> length (snd (snd q)) \<le> max_bytes_per_trace (limits ex_limiter_traces)"
    by (simp_all add: ex_limiter_traces_def ex_instance0_def newInstance_def ex_pushes_def ex_push5_def)
  from live_trace_limit [OF h]
  have "fst (push_all ex_limiter_traces ex_instance0 (ex_pushes @ [ex_push5]))
          = replicate 4 None @ [Some LiveTracesExceeded]" .
  also have "replicate 4 None @ [Some LiveTracesExceeded] = [None, None, None, None, Some LiveTracesExceeded]"
    by (simp add: numeral_eq_Suc)
  finally have r: "fst (push_all ex_limiter_traces ex_instance0 (ex_pushes @ [ex_push5]))
          = [None, None, None, None, Some LiveTracesExceeded]" .
  have sz: "list_all (\<lambda>q. length (snd (snd q)) \<le> max_bytes_per_trace (limits ex_limiter_traces))
        ex_pushes"
    by (simp add: ex_limiter_traces_def ex_pushes_def)
  from r sz h(1-7) show ?thesis by blast
qed

subsection \<open>Traces that are too large\<close>

lemma TraceTooLarge_persists:
  assumes "fst (PushBytes lim i now ident batch)
             = Some (TraceTooLarge ident (instanceID i) (max_bytes_per_trace (limits lim))
                       (length batch))"
    and "i1 = snd (PushBytes lim i now ident batch)"
    and "no_block_cut lim i1 ops"
    and "i2 = run_ops lim i1 ops"
  shows "fst (PushBytes lim i2 now' ident batch')
           = Some (TraceTooLarge ident (instanceID i) (max_bytes_per_trace (limits lim))
                     (length batch'))
       \<and> (CutBlockIfReady i2 now2 new_id lifetime maxBytes immediate = (Some bid, i3)
            \<and> find_live (traces i3) ident = None
            \<and> (local_limit lim = 0 \<or> length (traces i3) < local_limit lim)
            \<and> (max_bytes_per_trace (limits lim) = 0
                 \<or> length batch3 \<le> max_bytes_per_trace (limits lim))
            \<longrightarrow> fst (PushBytes lim i3 now3 ident batch3) = None)"
proof -
  from PushBytes_TraceTooLarge_poisons [OF assms(1)] assms(2)
  have "ident \<in> tooLarge i1" by simp
  with run_ops_keeps_poison [OF assms(3)] assms(2,4)
  have p: "ident \<in> tooLarge i2" and inst: "instanceID i2 = instanceID i"
    by (auto simp add: PushBytes_instanceID)
  have after: "fst (PushBytes lim i3 now3 ident batch3) = None"
    if cut: "CutBlockIfReady i2 now2 new_id lifetime maxBytes immediate = (Some bid, i3)"
      and fresh: "find_live (traces i3) ident = None"
      and lim: "local_limit lim = 0 \<or> length (traces i3) < local_limit lim"
      and sz: "max_bytes_per_trace (limits lim) = 0 \<or> length batch3 \<le> max_bytes_per_trace (limits lim)"
  proof -
    from cut have "tooLarge i3 = {}"
      by (auto simp add: CutBlockIfReady_def split: if_splits)
    then have "ident \<notin> tooLarge i3" by simp
    from PushBytes_fresh_ok [OF this fresh lim sz] show ?thesis by simp
  qed
  from p inst after show ?thesis by (simp add: PushBytes_poisoned)
qed

text \<open>
  C2. When a push makes its trace exceed \<open>max_bytes_per_trace\<close>, that is, the push is
  not turned away by the limit of live traces and the size of the live trace, if there
  is one, and the length of the batch together are above the limit, be the trace live
  already or created by the push, then the push returns \<open>TraceTooLarge\<close>; and after any
  further pushes and calls of \<open>CutCompleteTraces\<close>, and calls of \<open>CutBlockIfReady\<close>
  that cut no block, every push with the same trace id returns \<open>TraceTooLarge\<close>. After
  a call of \<open>CutBlockIfReady\<close> that cuts the head block, a push with that id that starts
  a new live trace, within the limits of bytes and of live traces, succeeds.
\<close>

theorem poisoned_until_block_cut:
  assumes "max_bytes_per_trace (limits lim) \<noteq> 0"
    and "live_size (traces i) ident + length batch > max_bytes_per_trace (limits lim)"
    and "find_live (traces i) ident \<noteq> None \<or> local_limit lim = 0
         \<or> length (traces i) < local_limit lim"
    and "i1 = snd (PushBytes lim i now ident batch)"
    and "no_block_cut lim i1 ops"
    and "i2 = run_ops lim i1 ops"
  shows "fst (PushBytes lim i now ident batch)
           = Some (TraceTooLarge ident (instanceID i) (max_bytes_per_trace (limits lim))
                     (length batch))
       \<and> fst (PushBytes lim i2 now' ident batch')
           = Some (TraceTooLarge ident (instanceID i) (max_bytes_per_trace (limits lim))
                     (length batch'))
       \<and> (CutBlockIfReady i2 now2 new_id lifetime maxBytes immediate = (Some bid, i3)
            \<and> find_live (traces i3) ident = None
            \<and> (local_limit lim = 0 \<or> length (traces i3) < local_limit lim)
            \<and> (max_bytes_per_trace (limits lim) = 0
                 \<or> length batch3 \<le> max_bytes_per_trace (limits lim))
            \<longrightarrow> fst (PushBytes lim i3 now3 ident batch3) = None)"
  using PushBytes_exceeds [OF assms(1-3), of now]
    TraceTooLarge_persists [OF PushBytes_exceeds [OF assms(1-3), of now] assms(4-6),
      of now' batch' now2 new_id lifetime maxBytes immediate bid i3 batch3 now3]
  by blast

lemma ex_instance_full_eq:
  "ex_instance_full = ex_instance0\<lparr>traces := [\<lparr>traceID = ex_trace_id, byte_size = 100, lastAppend = ex_now,
                                               batches = [replicate 100 0]\<rparr>]\<rparr>"
  "fst (PushBytes ex_limiter_bytes ex_instance0 ex_now ex_trace_id (replicate 100 0)) = None"
  by (simp_all add: ex_instance_full_def PushBytes_def Let_def ex_limiter_bytes_def ex_instance0_def
      newInstance_def find_live_def local_limit_def)

theorem poisoned_until_block_cut_witness:
  "fst (PushBytes ex_limiter_bytes ex_instance0 ex_now ex_trace_id (replicate 100 0)) = None
   \<and> fst (PushBytes ex_limiter_bytes ex_instance_full ex_now ex_trace_id (replicate 3 0))
       = Some (TraceTooLarge ex_trace_id ''fake'' 100 3)
   \<and> no_block_cut ex_limiter_bytes
        (snd (PushBytes ex_limiter_bytes ex_instance_full ex_now ex_trace_id (replicate 3 0)))
        [OpCutCompleteTraces ex_now 0 True]
   \<and> fst (PushBytes ex_limiter_bytes
            (run_ops ex_limiter_bytes
               (snd (PushBytes ex_limiter_bytes ex_instance_full ex_now ex_trace_id (replicate 3 0)))
               [OpCutCompleteTraces ex_now 0 True])
            ex_now ex_trace_id (replicate 5 0))
       = Some (TraceTooLarge ex_trace_id ''fake'' 100 5)
   \<and> fst (CutBlockIfReady
            (run_ops ex_limiter_bytes
               (snd (PushBytes ex_limiter_bytes ex_instance_full ex_now ex_trace_id (replicate 3 0)))
               [OpCutCompleteTraces ex_now 0 True])
            ex_now 1 0 0 True) = Some 0
   \<and> fst (PushBytes ex_limiter_bytes
            (snd (CutBlockIfReady
               (run_ops ex_limiter_bytes
                  (snd (PushBytes ex_limiter_bytes ex_instance_full ex_now ex_trace_id (replicate 3 0)))
                  [OpCutCompleteTraces ex_now 0 True])
               ex_now 1 0 0 True))
            ex_now ex_trace_id (replicate 100 0)) = None
   \<and> find_live (traces ex_instance0) ex_trace_id = None
   \<and> fst (PushBytes ex_limiter_bytes ex_instance0 ex_now ex_trace_id (replicate 101 0))
       = Some (TraceTooLarge ex_trace_id ''fake'' 100 101)
   \<and> fst (PushBytes ex_limiter_bytes
            (snd (PushBytes ex_limiter_bytes ex_instance0 ex_now ex_trace_id (replicate 101 0)))
            ex_now ex_trace_id (replicate 1 0))
       = Some (TraceTooLarge ex_trace_id ''fake'' 100 1)"
proof -
  define i1 where "i1 = snd (PushBytes ex_limiter_bytes ex_instance_full ex_now ex_trace_id (replicate 3 0))"
  define i2 where "i2 = run_ops ex_limiter_bytes i1 [OpCutCompleteTraces ex_now 0 True]"
  define i3 where "i3 = snd (CutBlockIfReady i2 ex_now 1 0 0 True)"
  have m: "max_bytes_per_trace (limits ex_limiter_bytes) = 100" "local_limit ex_limiter_bytes = 0"
    by (simp_all add: ex_limiter_bytes_def local_limit_def)
  have inst: "instanceID ex_instance_full = ''fake''"
    by (simp add: ex_instance_full_eq ex_instance0_def newInstance_def)
  have e1: "max_bytes_per_trace (limits ex_limiter_bytes) \<noteq> 0"
    and e2: "live_size (traces ex_instance_full) ex_trace_id + length (replicate 3 (0 :: 8 word))
               > max_bytes_per_trace (limits ex_limiter_bytes)"
    and e3: "find_live (traces ex_instance_full) ex_trace_id \<noteq> None
             \<or> local_limit ex_limiter_bytes = 0
             \<or> length (traces ex_instance_full) < local_limit ex_limiter_bytes"
    by (simp_all add: m ex_instance_full_eq live_size_def find_live_def)
  have h3: "no_block_cut ex_limiter_bytes i1 [OpCutCompleteTraces ex_now 0 True]" by simp
  have t2: "traces i2 = []"
    by (simp add: i2_def CutCompleteTraces_def trace_complete_def)
  have cut: "CutBlockIfReady i2 ex_now 1 0 0 True = (Some 0, i3)"
  proof -
    have "block_id (headBlock i2) = 0"
      by (simp add: i2_def i1_def CutCompleteTraces_def PushBytes_def Let_def m ex_instance_full_eq
          ex_instance0_def newInstance_def find_live_def)
    then show ?thesis by (simp add: i3_def CutBlockIfReady_def)
  qed
  have t3: "find_live (traces i3) ex_trace_id = None"
    using t2 by (simp add: i3_def CutBlockIfReady_def find_live_def)
  from poisoned_until_block_cut [OF e1 e2 e3 i1_def h3 i2_def,
         of ex_now "replicate 5 0" ex_now 1 0 0 True 0 i3 "replicate 100 0" ex_now] cut t3 m
  have "fst (PushBytes ex_limiter_bytes ex_instance_full ex_now ex_trace_id (replicate 3 0))
          = Some (TraceTooLarge ex_trace_id ''fake'' 100 3)"
    and "fst (PushBytes ex_limiter_bytes i2 ex_now ex_trace_id (replicate 5 0))
          = Some (TraceTooLarge ex_trace_id ''fake'' 100 5)"
    and "fst (PushBytes ex_limiter_bytes i3 ex_now ex_trace_id (replicate 100 0)) = None"
    by (simp_all add: inst)
  moreover have "fst (CutBlockIfReady i2 ex_now 1 0 0 True) = Some 0" using cut by simp
  ultimately have run: "fst (PushBytes ex_limiter_bytes ex_instance_full ex_now ex_trace_id (replicate 3 0))
          = Some (TraceTooLarge ex_trace_id ''fake'' 100 3)
      \<and> fst (PushBytes ex_limiter_bytes i2 ex_now ex_trace_id (replicate 5 0))
          = Some (TraceTooLarge ex_trace_id ''fake'' 100 5)
      \<and> fst (CutBlockIfReady i2 ex_now 1 0 0 True) = Some 0
      \<and> fst (PushBytes ex_limiter_bytes i3 ex_now ex_trace_id (replicate 100 0)) = None"
    by simp
  define j1 where "j1 = snd (PushBytes ex_limiter_bytes ex_instance0 ex_now ex_trace_id (replicate 101 0))"
  have new: "find_live (traces ex_instance0) ex_trace_id = None"
    by (simp add: ex_instance0_def newInstance_def find_live_def)
  have c2: "live_size (traces ex_instance0) ex_trace_id + length (replicate 101 (0 :: 8 word))
               > max_bytes_per_trace (limits ex_limiter_bytes)"
    and c3: "find_live (traces ex_instance0) ex_trace_id \<noteq> None
             \<or> local_limit ex_limiter_bytes = 0
             \<or> length (traces ex_instance0) < local_limit ex_limiter_bytes"
    and c5: "no_block_cut ex_limiter_bytes j1 []"
    and c6: "j1 = run_ops ex_limiter_bytes j1 []"
    and inst0: "instanceID ex_instance0 = ''fake''"
    by (simp_all add: m live_size_def new) (simp add: ex_instance0_def newInstance_def)
  from poisoned_until_block_cut [OF e1 c2 c3 j1_def c5 c6, of ex_now "replicate 1 0"] m
  have created: "fst (PushBytes ex_limiter_bytes ex_instance0 ex_now ex_trace_id (replicate 101 0))
          = Some (TraceTooLarge ex_trace_id ''fake'' 100 101)
      \<and> fst (PushBytes ex_limiter_bytes j1 ex_now ex_trace_id (replicate 1 0))
          = Some (TraceTooLarge ex_trace_id ''fake'' 100 1)"
    by (simp add: inst0)
  from run created new show ?thesis
    using ex_instance_full_eq(2) h3
    unfolding i3_def i2_def i1_def j1_def by simp
qed

end
